theory Spec2Isabelle
  imports Complex_Main
begin

section \<open>Python text operations used by graph/utilities.py\<close>

text \<open>
  Text is modelled as \<open>string\<close> (a list of 8-bit characters). All tables of the module
  are ASCII; a display glyph outside ASCII stands for its encoded bytes. The model is of
  ASCII text: \<open>str.lower()\<close> moves the letters A-Z to a-z and leaves every other
  character as it is.
\<close>

definition lower_char :: "char \<Rightarrow> char" where
  "lower_char c =
     (let n = (of_char c :: nat) in if 65 \<le> n \<and> n \<le> 90 then char_of (n + 32) else c)"

definition lower :: "string \<Rightarrow> string" where
  "lower s = map lower_char s"

text \<open>
  \<open>s.replace(old, new)\<close>: every non-overlapping occurrence of \<open>old\<close>, scanning from the
  left. With an empty \<open>old\<close> Python inserts \<open>new\<close> before every character and at the end.
\<close>

function replace :: "string \<Rightarrow> string \<Rightarrow> string \<Rightarrow> string" where
  "replace old new [] = (if old = [] then new else [])"
| "replace old new (c # cs) =
     (if old = [] then new @ c # replace old new cs
      else if take (length old) (c # cs) = old
        then new @ replace old new (drop (length old) (c # cs))
      else c # replace old new cs)"
  by pat_completeness auto
termination
  by (relation "measure (\<lambda>(old, new, s). length s)") auto

text \<open>\<open>sub in s\<close> for two strings: \<open>sub\<close> occurs in \<open>s\<close> as a contiguous piece.\<close>

fun contains :: "string \<Rightarrow> string \<Rightarrow> bool" where
  "contains sub [] = (sub = [])"
| "contains sub (c # cs) = (take (length sub) (c # cs) = sub \<or> contains sub cs)"

section \<open>Values\<close>

text \<open>
  The values the functions of the module receive. A finite Python float is carried as its
  exact rational value, which is all the comparison \<open>sub < 1\<close> needs; float arithmetic and
  float formatting are not defined here (see \<open>externals\<close>). A list or tuple holds numbers.
\<close>

datatype pynum = PyInt int | PyFloat rat

datatype pyval =
    PyNone
  | PyBool (bool_of: bool)
  | PyNum (num_of: pynum)
  | PyStr (str_of: string)
  | PyList (items_of: "pynum list")

section \<open>Errors\<close>

text \<open>
  The module defines two exception classes, \<open>GraphException\<close> and
  \<open>PlotStreamException\<close>; the others are Python's own. A raised exception is its class
  and its message.
\<close>

datatype exn_class =
  GraphException | PlotStreamException | IndexError | TypeError | ValueError | ImportError

datatype pyerror = Raise (exn_class_of: exn_class) (message_of: string)

section \<open>userFormatsToFormat\<close>

definition FORMAT_SYNONYMS :: "string list list" where
  "FORMAT_SYNONYMS =
     [[''horizontalbar'', ''bar'', ''horizontal'', ''pianoroll'', ''piano''],
      [''histogram'', ''histo'', ''count''],
      [''scatter'', ''point''],
      [''scatterweighted'', ''weightedscatter'', ''weighted''],
      [''3dbars'', ''3d''],
      [''colorgrid'', ''grid'', ''window'', ''windowed''],
      [''horizontalbarweighted'', ''barweighted'', ''weightedbar'']]"

text \<open>\<open>opt[0]\<close> on a tuple: IndexError when the tuple is empty.\<close>

definition index0 :: "'a list \<Rightarrow> pyerror + 'a" where
  "index0 xs = (case xs of [] \<Rightarrow> Inl (Raise IndexError ''tuple index out of range'')
                | x # _ \<Rightarrow> Inr x)"

text \<open>The loop \<open>for opt in FORMAT_SYNONYMS\<close> with its early return, and the final return.\<close>

fun userFormatsToFormat_loop :: "string list list \<Rightarrow> string \<Rightarrow> pyerror + string" where
  "userFormatsToFormat_loop [] value = Inr value"
| "userFormatsToFormat_loop (opt # opts) value =
     (if value \<in> set opt then index0 opt else userFormatsToFormat_loop opts value)"

definition userFormatsToFormat :: "string \<Rightarrow> pyerror + string" where
  "userFormatsToFormat value =
     (let value = lower value;
          value = replace '' '' [] value
      in userFormatsToFormat_loop FORMAT_SYNONYMS value)"

section \<open>userValuesToValues\<close>

text \<open>
  The loop \<open>for value in valueList\<close>; \<open>post\<close> is the list built by \<open>post.append\<close>.
  No operation of the body can raise on a list of strings, so the result is a plain list.
\<close>

fun userValuesToValues_loop :: "string list \<Rightarrow> string list \<Rightarrow> string list" where
  "userValuesToValues_loop post [] = post"
| "userValuesToValues_loop post (value # valueList) =
     (let value = lower value;
          value = replace '' '' [] value
      in if value \<in> set [''pitch'', ''pitchspace'', ''ps'']
           then userValuesToValues_loop (post @ [''pitch'']) valueList
         else if value \<in> set [''pitchclass'', ''pc'']
           then userValuesToValues_loop (post @ [''pitchclass'']) valueList
         else if value \<in> set [''duration'', ''quarterlength'']
           then userValuesToValues_loop (post @ [''quarterlength'']) valueList
         else if value \<in> set [''offset'', ''time'']
           then userValuesToValues_loop (post @ [''offset'']) valueList
         else if value \<in> set [''dynamic'', ''dynamics'']
           then userValuesToValues_loop (post @ [''dynamics'']) valueList
         else if value \<in> set [''instrument'', ''instruments'', ''instrumentation'']
           then userValuesToValues_loop (post @ [''instrument'']) valueList
         else userValuesToValues_loop (post @ [value]) valueList)"

definition userValuesToValues :: "string list \<Rightarrow> string list" where
  "userValuesToValues valueList = userValuesToValues_loop [] valueList"

section \<open>accidentalLabelToUnicode\<close>

text \<open>
  \<open>pitch.unicodeFromModifier\<close> is a dictionary of the pitch module, whose source is not
  part of this development: it is a parameter, given as its items in iteration order.
  The loop \<open>for modifier, unicodeAcc in ...items()\<close> ends at the first modifier that
  passes the test (\<open>break\<close>).
\<close>

fun accidentalLabelToUnicode_loop :: "(string \<times> string) list \<Rightarrow> string \<Rightarrow> string" where
  "accidentalLabelToUnicode_loop [] label = label"
| "accidentalLabelToUnicode_loop ((modifier, unicodeAcc) # items) label =
     (if modifier \<noteq> [] \<and> contains modifier label \<and> modifier \<in> set [''-'', ''#'']
      then replace modifier unicodeAcc label
      else accidentalLabelToUnicode_loop items label)"

text \<open>
  Under Python 2 the label is first turned into a unicode string, which changes no
  character of it.
\<close>

definition accidentalLabelToUnicode :: "(string \<times> string) list \<Rightarrow> pyval \<Rightarrow> pyval" where
  "accidentalLabelToUnicode unicodeFromModifier label =
     (if \<not> is_PyStr label then label
      else PyStr (accidentalLabelToUnicode_loop unicodeFromModifier (str_of label)))"

section \<open>getColor\<close>

text \<open>
  Modelled from the spec: \<open>common.isNum\<close> and \<open>common.isListLike\<close> (module
  \<open>music21.common\<close>, absent from the sources). Specification 4.1: "a single numeric
  scalar" and "list-like (sequence of 1 or 3 numbers)"; a boolean is "any other shape",
  as the docstring of \<open>getColor\<close> shows for \<open>True\<close>.
\<close>

definition isNum :: "pyval \<Rightarrow> bool" where
  "isNum usrData = is_PyNum usrData"

definition isListLike :: "pyval \<Rightarrow> bool" where
  "isListLike usrData = is_PyList usrData"

text \<open>
  What \<open>getColor\<close> calls and this development does not define: the table and the three
  conversion functions of \<open>music21.ext.webcolors\<close> (absent from the sources; each may
  raise), and Python's float multiplication and float formatting.
\<close>

record externals =
  css3_names_to_hex :: "string \<rightharpoonup> string"
  normalize_hex :: "string \<Rightarrow> pyerror + string"
  rgb_to_hex :: "pynum list \<Rightarrow> pyerror + string"
  rgb_percent_to_hex :: "string list \<Rightarrow> pyerror + string"
  float_mul :: "rat \<Rightarrow> rat \<Rightarrow> rat"
  float_str :: "rat \<Rightarrow> string"

text \<open>\<open>str\<close> of an integer: its decimal digits, with a minus sign when negative.\<close>

fun str_nat :: "nat \<Rightarrow> string" where
  "str_nat n =
     (if n < 10 then [''0123456789'' ! n]
      else str_nat (n div 10) @ [''0123456789'' ! (n mod 10)])"

definition str_int :: "int \<Rightarrow> string" where
  "str_int i = (if i < 0 then CHR ''-'' # str_nat (nat (- i)) else str_nat (nat i))"

fun num_str :: "externals \<Rightarrow> pynum \<Rightarrow> string" where
  "num_str ext (PyInt i) = str_int i"
| "num_str ext (PyFloat x) = float_str ext x"

text \<open>\<open>x * 100\<close> and \<open>sub < 1\<close> on a number.\<close>

fun times_100 :: "externals \<Rightarrow> pynum \<Rightarrow> pynum" where
  "times_100 ext (PyInt i) = PyInt (i * 100)"
| "times_100 ext (PyFloat x) = PyFloat (float_mul ext x 100)"

fun less_than_1 :: "pynum \<Rightarrow> bool" where
  "less_than_1 (PyInt i) = (i < 1)"
| "less_than_1 (PyFloat x) = (x < 1)"

text \<open>
  \<open>'%s' % color\<close> for the message of the last \<open>raise\<close>.
\<close>

fun py_str :: "externals \<Rightarrow> pyval \<Rightarrow> string" where
  "py_str ext PyNone = ''None''"
| "py_str ext (PyBool b) = (if b then ''True'' else ''False'')"
| "py_str ext (PyNum n) = num_str ext n"
| "py_str ext (PyStr s) = s"
| "py_str ext (PyList xs) =
     ''['' @ concat (case map (num_str ext) xs of [] \<Rightarrow> []
                      | y # ys \<Rightarrow> y # map (\<lambda>z. '', '' @ z) ys) @ '']''"

definition colorMap :: "string \<rightharpoonup> string" where
  "colorMap = map_of
     [(''b'', ''blue''), (''g'', ''green''), (''r'', ''red''), (''c'', ''cyan''),
      (''m'', ''magenta''), (''y'', ''yellow''), (''k'', ''black''), (''w'', ''white'')]"

text \<open>
  The branch \<open>isinstance(color, six.string_types)\<close>. \<open>color[0]\<close> raises IndexError on
  the empty string; a failed dictionary lookup (KeyError) is caught and raised again as
  GraphException.
\<close>

definition css3_lookup :: "externals \<Rightarrow> string \<Rightarrow> pyerror + string" where
  "css3_lookup ext color =
     (case css3_names_to_hex ext color of
        Some hex \<Rightarrow> Inr hex
      | None \<Rightarrow> Inl (Raise GraphException (''invalid color name: '' @ color)))"

definition getColor_string :: "externals \<Rightarrow> string \<Rightarrow> pyerror + string" where
  "getColor_string ext color =
     (case color of
        [] \<Rightarrow> Inl (Raise IndexError ''string index out of range'')
      | c0 # _ \<Rightarrow>
          if c0 = CHR ''#'' then normalize_hex ext color
          else
            (let color = replace '' '' [] (lower color)
             in if length color = 1
                then (case colorMap color of
                        None \<Rightarrow> Inl (Raise GraphException (''invalid color abbreviation: '' @ color))
                      | Some name \<Rightarrow> css3_lookup ext name)
                else css3_lookup ext color))"

text \<open>
  The branch \<open>common.isListLike(color)\<close>. The loop sets \<open>percent\<close> at the first element
  below 1 and breaks.
\<close>

fun percent_loop :: "pynum list \<Rightarrow> bool" where
  "percent_loop [] = False"
| "percent_loop (sub # rest) = (if less_than_1 sub then True else percent_loop rest)"

definition getColor_sequence :: "externals \<Rightarrow> pynum list \<Rightarrow> pyerror + string" where
  "getColor_sequence ext color =
     (let percent = percent_loop color
      in if percent
         then
           (let color = (if length color = 1 then [color ! 0, color ! 0, color ! 0] else color);
                colorStrList = map (\<lambda>x. num_str ext (times_100 ext x) @ ''%'') color
            in rgb_percent_to_hex ext colorStrList)
         else rgb_to_hex ext color)"

definition getColor :: "externals \<Rightarrow> pyval \<Rightarrow> pyerror + string" where
  "getColor ext color =
     (let color = (if isNum color then PyList [num_of color, num_of color, num_of color]
                   else color)
      in if is_PyStr color then getColor_string ext (str_of color)
         else if isListLike color then getColor_sequence ext (items_of color)
         else Inl (Raise GraphException (''invalid color specification: '' @ py_str ext color)))"

section \<open>getExtendedModules\<close>

text \<open>
  The state the imports depend on: \<open>_missingImport\<close> of \<open>music21.base\<close> (absent from the
  sources) and which modules an import statement finds. A module is its dotted name.
  The result is the warnings written to the environment, and the named tuple or the
  exception raised.
\<close>

datatype module = Module string

record import_state =
  missingImport :: "string list"
  importable :: "string \<Rightarrow> bool"

record ExtendedModules =
  matplotlib :: module
  Axes3D :: "module option"
  collections :: module
  patches :: module
  plt :: module
  networkx :: "module option"

definition import_module :: "import_state \<Rightarrow> string \<Rightarrow> pyerror + module" where
  "import_module st name =
     (if importable st name then Inr (Module name)
      else Inl (Raise ImportError (''No module named '' @ [CHR 0x27] @ name @ [CHR 0x27])))"

definition getExtendedModules :: "import_state \<Rightarrow> string list \<times> (pyerror + ExtendedModules)" where
  "getExtendedModules st =
     (if ''matplotlib'' \<in> set (missingImport st)
      then ([], Inl (Raise GraphException ''could not find matplotlib, graphing is not allowed''))
      else
        case import_module st ''matplotlib'' of Inl e \<Rightarrow> ([], Inl e) | Inr m \<Rightarrow>
        let (a3d, warnings) =
              (case import_module st ''mpl_toolkits.mplot3d.Axes3D'' of
                 Inr a \<Rightarrow> (Some a, [])
               | Inl e \<Rightarrow> (None,
                   [''mpl_toolkits.mplot3d.Axes3D could not be imported -- likely cause is an ''
                    @ ''old version of six.py (< 1.9.0) on your system somewhere'']))
        in
        case import_module st ''matplotlib.collections'' of Inl e \<Rightarrow> (warnings, Inl e) | Inr c \<Rightarrow>
        case import_module st ''matplotlib.patches'' of Inl e \<Rightarrow> (warnings, Inl e) | Inr p \<Rightarrow>
        case import_module st ''matplotlib.pyplot'' of Inl e \<Rightarrow> (warnings, Inl e) | Inr pl \<Rightarrow>
        let nx = (case import_module st ''networkx'' of Inr n \<Rightarrow> Some n | Inl e \<Rightarrow> None)
        in (warnings,
            Inr \<lparr>matplotlib = m, Axes3D = a3d, collections = c, patches = p, plt = pl,
                 networkx = nx\<rparr>))"

section \<open>The resolvers as the specification words them\<close>

text \<open>Specification 4.2: "lowercase and remove spaces from input".\<close>

definition normalized :: "string \<Rightarrow> string" where
  "normalized text = filter (\<lambda>c. c \<noteq> CHR '' '') (map lower_char text)"

text \<open>
  Specification 4.2: "scan the fixed ordered list of synonym groups; return the group's
  canonical (first) member on first match; otherwise return the normalized input
  unchanged".
\<close>

definition resolveFormat :: "string \<Rightarrow> string" where
  "resolveFormat text =
     (case find (\<lambda>opt. normalized text \<in> set opt) FORMAT_SYNONYMS of
        Some opt \<Rightarrow> hd opt
      | None \<Rightarrow> normalized text)"

text \<open>Specification 4.3: the fixed mapping from synonym sets to canonical identifiers.\<close>

definition value_synonyms :: "(string list \<times> string) list" where
  "value_synonyms =
     [([''pitch'', ''pitchspace'', ''ps''], ''pitch''),
      ([''pitchclass'', ''pc''], ''pitchclass''),
      ([''duration'', ''quarterlength''], ''quarterlength''),
      ([''offset'', ''time''], ''offset''),
      ([''dynamic'', ''dynamics''], ''dynamics''),
      ([''instrument'', ''instruments'', ''instrumentation''], ''instrument'')]"

definition resolveValue :: "string \<Rightarrow> string" where
  "resolveValue text =
     (case find (\<lambda>(synonyms, canonical). normalized text \<in> set synonyms) value_synonyms of
        Some (synonyms, canonical) \<Rightarrow> canonical
      | None \<Rightarrow> normalized text)"

text \<open>
  Specification 4.4: "applies substitution only for the two ASCII modifiers - (flat) and
  # (sharp), replacing every occurrence of that one modifier in the string with its
  glyph, then stops after the first matching modifier is found".
\<close>

definition substitute :: "char \<Rightarrow> string \<Rightarrow> string \<Rightarrow> string" where
  "substitute modifier glyph label =
     concat (map (\<lambda>c. if c = modifier then glyph else [c]) label)"

definition toDisplayLabel :: "(string \<times> string) list \<Rightarrow> string \<Rightarrow> string" where
  "toDisplayLabel table label =
     (case find (\<lambda>(modifier, glyph).
                   (modifier = ''-'' \<or> modifier = ''#'') \<and> hd modifier \<in> set label) table of
        None \<Rightarrow> label
      | Some (modifier, glyph) \<Rightarrow> substitute (hd modifier) glyph label)"

section \<open>The color helpers as the specification words them\<close>

text \<open>
  Specification 6: a color at the boundary is "# followed by exactly 6 lowercase
  hexadecimal digits".
\<close>

definition lower_hex_digits :: string where
  "lower_hex_digits = ''0123456789abcdef''"

definition hex_digits :: string where
  "hex_digits = ''0123456789abcdefABCDEF''"

definition canonical_color :: "string \<Rightarrow> bool" where
  "canonical_color s =
     (case s of [] \<Rightarrow> False
      | c # digits \<Rightarrow> c = CHR ''#'' \<and> length digits = 6
                      \<and> list_all (\<lambda>d. d \<in> set lower_hex_digits) digits)"

text \<open>
  Modelled from the spec: \<open>webcolors.normalize_hex\<close> (module \<open>music21.ext.webcolors\<close>,
  absent from the sources). Specification 4.1: "normalize shorthand (3-digit) to full
  6-digit form, validate hex digits, lowercase; fails with InvalidColor on malformed
  hex". \<open>None\<close> is the failure.
\<close>

definition valid_hex :: "string \<Rightarrow> bool" where
  "valid_hex s =
     (case s of [] \<Rightarrow> False
      | c # digits \<Rightarrow> c = CHR ''#'' \<and> (length digits = 3 \<or> length digits = 6)
                      \<and> list_all (\<lambda>d. d \<in> set hex_digits) digits)"

definition normalize_hex_spec :: "string \<Rightarrow> string option" where
  "normalize_hex_spec s =
     (if valid_hex s
      then Some (CHR ''#'' # lower (if length (tl s) = 3
                                   then concat (map (\<lambda>d. [d, d]) (tl s)) else tl s))
      else None)"

text \<open>
  Modelled from the spec: \<open>webcolors.rgb_to_hex\<close> (module \<open>music21.ext.webcolors\<close>,
  absent from the sources). Specification 4.1: "interpret the 3 values directly as 0-255
  RGB channel values and convert to hex, zero-padding each channel to 2 hex digits".
  \<open>None\<close> where the specification says nothing: another length, a float, a value
  outside 0-255.
\<close>

definition hex2 :: "int \<Rightarrow> string" where
  "hex2 v = [lower_hex_digits ! (nat v div 16), lower_hex_digits ! (nat v mod 16)]"

fun rgb_to_hex_spec :: "pynum list \<Rightarrow> string option" where
  "rgb_to_hex_spec [PyInt r, PyInt g, PyInt b] =
     (if 0 \<le> r \<and> r \<le> 255 \<and> 0 \<le> g \<and> g \<le> 255 \<and> 0 \<le> b \<and> b \<le> 255
      then Some (CHR ''#'' # hex2 r @ hex2 g @ hex2 b) else None)"
| "rgb_to_hex_spec xs = None"

text \<open>
  The value of a number, for stating comparisons independently of the code's test.
\<close>

fun num_val :: "pynum \<Rightarrow> rat" where
  "num_val (PyInt i) = of_int i"
| "num_val (PyFloat x) = x"

text \<open>
  Specification 4.1: "convert each value to a percentage string (value*100 + %)". For an
  integer the product and its digits are exact; for a float they are the float product
  and the float formatting of the environment.
\<close>

definition percentage_string :: "externals \<Rightarrow> pynum \<Rightarrow> string" where
  "percentage_string ext v =
     (case v of PyInt i \<Rightarrow> str_int (i * 100)
      | PyFloat x \<Rightarrow> float_str ext (float_mul ext x 100)) @ ''%''"

text \<open>
  Modelled from the spec: \<open>webcolors.rgb_percent_to_hex\<close> (module
  \<open>music21.ext.webcolors\<close>, absent from the sources). Specification 4.1: "combine into a
  hex color via percentage-to-hex conversion (each channel rounds its percentage to the
  nearest representable 8-bit value -- exact rounding rule: standard percent-to-255
  conversion, round-half-up)". A percentage string is decimal digits, optionally a point
  and more digits, and the percent sign. \<open>None\<close> where the specification says nothing:
  another length, a string of another form, a percentage outside 0-100.
\<close>

definition digit_value :: "char \<Rightarrow> nat option" where
  "digit_value c =
     (let n = (of_char c :: nat) in if 48 \<le> n \<and> n \<le> 57 then Some (n - 48) else None)"

fun parse_digits :: "nat \<Rightarrow> string \<Rightarrow> nat option" where
  "parse_digits acc [] = Some acc"
| "parse_digits acc (c # cs) =
     (case digit_value c of None \<Rightarrow> None | Some d \<Rightarrow> parse_digits (10 * acc + d) cs)"

definition parse_decimal :: "string \<Rightarrow> rat option" where
  "parse_decimal s =
     (let whole = takeWhile (\<lambda>c. c \<noteq> CHR ''.'') s;
          rest = dropWhile (\<lambda>c. c \<noteq> CHR ''.'') s;
          frac = (if rest = [] then [] else tl rest)
      in if whole = [] \<or> (rest \<noteq> [] \<and> frac = []) then None
         else case parse_digits 0 whole of None \<Rightarrow> None
              | Some w \<Rightarrow>
                  (case parse_digits 0 frac of None \<Rightarrow> None
                   | Some f \<Rightarrow> Some (of_nat w + of_nat f / 10 ^ length frac)))"

definition parse_percent :: "string \<Rightarrow> rat option" where
  "parse_percent s =
     (if s \<noteq> [] \<and> last s = CHR ''%'' then parse_decimal (butlast s) else None)"

definition percent_to_channel :: "rat \<Rightarrow> int" where
  "percent_to_channel p = \<lfloor>p * 255 / 100 + 1 / 2\<rfloor>"

definition channel_of_string :: "string \<Rightarrow> int option" where
  "channel_of_string s =
     (case parse_percent s of None \<Rightarrow> None
      | Some p \<Rightarrow> if 0 \<le> p \<and> p \<le> 100 then Some (percent_to_channel p) else None)"

fun rgb_percent_to_hex_spec :: "string list \<Rightarrow> string option" where
  "rgb_percent_to_hex_spec [r, g, b] =
     (case channel_of_string r of None \<Rightarrow> None
      | Some cr \<Rightarrow>
          (case channel_of_string g of None \<Rightarrow> None
           | Some cg \<Rightarrow>
               (case channel_of_string b of None \<Rightarrow> None
                | Some cb \<Rightarrow> Some (CHR ''#'' # hex2 cr @ hex2 cg @ hex2 cb))))"
| "rgb_percent_to_hex_spec strs = None"

section \<open>Python floats\<close>

text \<open>
  A Python float is an IEEE 754 double. \<open>double_round\<close> is the double nearest to a
  rational, ties to the even mantissa, in the normal range (no overflow, no subnormal
  numbers): the mantissa has 53 bits. A float literal denotes the double nearest to its
  decimal value, and the product of two floats is the double nearest to the exact
  product.
\<close>

fun bit_length :: "nat \<Rightarrow> nat" where
  "bit_length n = (if n = 0 then 0 else Suc (bit_length (n div 2)))"

definition pow2 :: "int \<Rightarrow> rat" where
  "pow2 e = (if 0 \<le> e then 2 ^ nat e else 1 / 2 ^ nat (- e))"

definition round_half_even :: "rat \<Rightarrow> int" where
  "round_half_even x =
     (let f = \<lfloor>x\<rfloor>; d = x - of_int f
      in if d < 1 / 2 then f else if 1 / 2 < d then f + 1
         else if even f then f else f + 1)"

text \<open>For a positive rational, the exponent \<open>e\<close> with \<open>2^52 \<le> x / 2^e < 2^53\<close>.\<close>

definition double_exponent :: "rat \<Rightarrow> int" where
  "double_exponent x =
     (if 1 \<le> x then int (bit_length (nat \<lfloor>x\<rfloor>)) - 1 - 52
      else - int (bit_length (nat (\<lceil>1 / x\<rceil> - 1))) - 52)"

definition double_round :: "rat \<Rightarrow> rat" where
  "double_round x =
     (if x = 0 then 0
      else let a = \<bar>x\<bar>; e = double_exponent a
           in sgn x * of_int (round_half_even (a / pow2 e)) * pow2 e)"

text \<open>
  \<open>str\<close> of a float whose value is an integer below \<open>10^16\<close> in size: the digits of the
  integer followed by \<open>.0\<close>. Other values are printed by no example and are left
  unspecified here.
\<close>

definition str_integral_float :: "rat \<Rightarrow> string" where
  "str_integral_float x =
     (if of_int \<lfloor>x\<rfloor> = x \<and> \<bar>x\<bar> < 10 ^ 16 then str_int \<lfloor>x\<rfloor> @ ''.0'' else ''unspecified'')"

section \<open>Concrete environments for the examples\<close>

text \<open>
  One environment whose helpers do what the specification says and raise where it says
  nothing; \<open>rgb_to_hex\<close> raises TypeError on a sequence that does not hold three
  values. The table holds the two names whose values the docstring of \<open>getColor\<close>
  shows. The float product is the IEEE product.
\<close>

definition sample_externals :: externals where
  "sample_externals =
     \<lparr>css3_names_to_hex = map_of [(''red'', ''#ff0000''), (''steelblue'', ''#4682b4'')],
      normalize_hex = (\<lambda>s. case normalize_hex_spec s of Some hex \<Rightarrow> Inr hex
                         | None \<Rightarrow> Inl (Raise GraphException ''malformed hex'')),
      rgb_to_hex = (\<lambda>xs. case rgb_to_hex_spec xs of Some hex \<Rightarrow> Inr hex
                      | None \<Rightarrow>
                          if length xs < 3
                          then Inl (Raise TypeError ''not enough arguments for format string'')
                          else Inl (Raise ValueError ''unspecified'')),
      rgb_percent_to_hex = (\<lambda>strs. case rgb_percent_to_hex_spec strs of Some hex \<Rightarrow> Inr hex
                              | None \<Rightarrow> Inl (Raise ValueError ''unspecified'')),
      float_mul = (\<lambda>x y. double_round (x * y)),
      float_str = str_integral_float\<rparr>"

text \<open>An installation without matplotlib.\<close>

definition matplotlib_missing :: import_state where
  "matplotlib_missing = \<lparr>missingImport = [''matplotlib''], importable = (\<lambda>name. False)\<rparr>"

text \<open>
  A sample of the dictionary for the examples: the empty modifier, the sharp and the flat,
  the glyphs U+266F and U+266D as their UTF-8 bytes.
\<close>

definition sharp_glyph :: string where
  "sharp_glyph = [CHR 0xE2, CHR 0x99, CHR 0xAF]"

definition flat_glyph :: string where
  "flat_glyph = [CHR 0xE2, CHR 0x99, CHR 0xAD]"

definition sample_unicodeFromModifier :: "(string \<times> string) list" where
  "sample_unicodeFromModifier = [([], []), (''#'', sharp_glyph), (''-'', flat_glyph)]"

text \<open>The kind of the error of a failed call, if it failed.\<close>

definition error_kind :: "pyerror + 'a \<Rightarrow> exn_class option" where
  "error_kind r = (case r of Inl e \<Rightarrow> Some (exn_class_of e) | Inr v \<Rightarrow> None)"

section \<open>Facts about the text operations\<close>

lemma replace_single:
  "replace [c] new s = concat (map (\<lambda>x. if x = c then new else [x]) s)"
  by (induction s) auto

lemma replace_space: "replace '' '' [] (lower s) = normalized s"
  by (induction s) (auto simp: normalized_def lower_def)

lemma of_char_lower_char:
  "(of_char (lower_char c) :: nat) =
     (let n = of_char c in if 65 \<le> n \<and> n \<le> 90 then n + 32 else n)"
  by (simp add: lower_char_def Let_def)

lemma lower_char_not_space: "lower_char c = CHR '' '' \<longleftrightarrow> c = CHR '' ''"
proof -
  have "lower_char c = CHR '' '' \<longleftrightarrow> (of_char (lower_char c) :: nat) = of_char (CHR '' '')"
    by (simp only: of_char_eq_iff)
  also have "\<dots> \<longleftrightarrow> (of_char c :: nat) = of_char (CHR '' '')"
    by (simp add: of_char_lower_char Let_def)
  also have "\<dots> \<longleftrightarrow> c = CHR '' ''"
    by (simp only: of_char_eq_iff)
  finally show ?thesis .
qed

lemma lower_char_idem: "lower_char (lower_char c) = lower_char c"
  by (simp add: lower_char_def Let_def)

lemma normalized_idem: "normalized (normalized s) = normalized s"
  by (induction s) (simp_all add: normalized_def lower_char_idem lower_char_not_space)

section \<open>The format resolver\<close>

lemma userFormatsToFormat_loop_find:
  "userFormatsToFormat_loop groups v =
     Inr (case find (\<lambda>opt. v \<in> set opt) groups of Some opt \<Rightarrow> hd opt | None \<Rightarrow> v)"
  by (induction groups) (auto simp: index0_def split: list.splits)

lemma userFormatsToFormat_normalized:
  "userFormatsToFormat s = userFormatsToFormat_loop FORMAT_SYNONYMS (normalized s)"
  by (simp add: userFormatsToFormat_def replace_space)

lemma canonical_fixed:
  assumes "opt \<in> set FORMAT_SYNONYMS"
  shows "userFormatsToFormat (hd opt) = Inr (hd opt)"
proof -
  have "list_all (\<lambda>opt. userFormatsToFormat (hd opt) = Inr (hd opt)) FORMAT_SYNONYMS"
    by (simp add: userFormatsToFormat_def lower_def lower_char_def FORMAT_SYNONYMS_def
        index0_def char_of_def bit_0)
  with assms show ?thesis
    by (simp add: list_all_iff)
qed

text \<open>
  Claim C6. For every input string, \<open>userFormatsToFormat\<close> returns (it never raises): the
  result is the first member of the first synonym group that contains the lowercased,
  space-free input, and that normalized input itself when no group contains it;
  \<open>'horizontal'\<close> gives \<open>'horizontalbar'\<close> and \<open>'4D super chart'\<close> gives
  \<open>'4dsuperchart'\<close>.
\<close>

theorem userFormatsToFormat_resolves:
  "userFormatsToFormat text = Inr (resolveFormat text)
   \<and> userFormatsToFormat ''horizontal'' = Inr ''horizontalbar''
   \<and> userFormatsToFormat ''4D super chart'' = Inr ''4dsuperchart''"
proof -
  have "userFormatsToFormat text = Inr (resolveFormat text)"
    by (simp add: userFormatsToFormat_normalized userFormatsToFormat_loop_find resolveFormat_def)
  moreover have "userFormatsToFormat ''horizontal'' = Inr ''horizontalbar''"
    by (simp add: userFormatsToFormat_def lower_def lower_char_def FORMAT_SYNONYMS_def
        index0_def char_of_def bit_0)
  moreover have "userFormatsToFormat ''4D super chart'' = Inr ''4dsuperchart''"
    by (simp add: userFormatsToFormat_def lower_def lower_char_def FORMAT_SYNONYMS_def
        index0_def char_of_def bit_0)
  ultimately show ?thesis by simp
qed

theorem userFormatsToFormat_resolves_witness:
  "userFormatsToFormat ''Weighted Scatter'' = Inr ''scatterweighted''
   \<and> userFormatsToFormat ''3D'' = Inr ''3dbars''"
proof -
  have "resolveFormat ''Weighted Scatter'' = ''scatterweighted''"
    by (simp add: resolveFormat_def normalized_def FORMAT_SYNONYMS_def lower_char_def
        char_of_def bit_0)
  moreover have "resolveFormat ''3D'' = ''3dbars''"
    by (simp add: resolveFormat_def normalized_def FORMAT_SYNONYMS_def lower_char_def
        char_of_def bit_0)
  ultimately show ?thesis
    using userFormatsToFormat_resolves [of "''Weighted Scatter''"]
      userFormatsToFormat_resolves [of "''3D''"]
    by simp
qed

text \<open>
  Claim C10. \<open>userFormatsToFormat\<close> is idempotent: for every string it returns a result,
  and applied to that result it returns the same result again.
\<close>

theorem userFormatsToFormat_idempotent:
  "\<exists>r. userFormatsToFormat s = Inr r \<and> userFormatsToFormat r = Inr r"
proof (cases "find (\<lambda>opt. normalized s \<in> set opt) FORMAT_SYNONYMS")
  case None
  have first: "userFormatsToFormat s = Inr (normalized s)"
    by (simp add: userFormatsToFormat_normalized userFormatsToFormat_loop_find None)
  have again: "userFormatsToFormat (normalized s) = Inr (normalized s)"
    by (simp add: userFormatsToFormat_normalized userFormatsToFormat_loop_find
        normalized_idem None)
  from first again show ?thesis by blast
next
  case (Some opt)
  then have member: "opt \<in> set FORMAT_SYNONYMS"
    by (auto simp: find_Some_iff)
  have first: "userFormatsToFormat s = Inr (hd opt)"
    by (simp add: userFormatsToFormat_normalized userFormatsToFormat_loop_find Some)
  from first canonical_fixed [OF member] show ?thesis by blast
qed

section \<open>The value resolver\<close>

lemma resolveValue_unfold:
  "resolveValue v =
    (let value = normalized v in
      if value \<in> set [''pitch'', ''pitchspace'', ''ps''] then ''pitch''
      else if value \<in> set [''pitchclass'', ''pc''] then ''pitchclass''
      else if value \<in> set [''duration'', ''quarterlength''] then ''quarterlength''
      else if value \<in> set [''offset'', ''time''] then ''offset''
      else if value \<in> set [''dynamic'', ''dynamics''] then ''dynamics''
      else if value \<in> set [''instrument'', ''instruments'', ''instrumentation'']
        then ''instrument''
      else value)"
  unfolding resolveValue_def value_synonyms_def Let_def find.simps prod.case
  by (simp only: if_distrib[of "case_option _ _"] option.case prod.case cong: if_cong)

lemma userValuesToValues_loop_step:
  "userValuesToValues_loop post (v # vs) =
     userValuesToValues_loop (post @ [resolveValue v]) vs"
  unfolding resolveValue_unfold userValuesToValues_loop.simps Let_def replace_space
  by (simp only: if_distrib[of "\<lambda>x. userValuesToValues_loop (post @ [x]) vs"] cong: if_cong)

lemma userValuesToValues_loop_map:
  "userValuesToValues_loop post vs = post @ map resolveValue vs"
proof (induction vs arbitrary: post)
  case Nil
  then show ?case by simp
next
  case (Cons v vs)
  show ?case
    by (simp only: userValuesToValues_loop_step Cons.IH list.map append_assoc append_Cons
        append_Nil)
qed

text \<open>
  Claim C7. For every list of strings, \<open>userValuesToValues\<close> returns the list of the
  same length whose element at each position is the resolution of the input element at
  that position alone: the canonical identifier of the synonym set that holds the
  lowercased, space-free element, or that normalized element itself when no set holds it.
\<close>

theorem userValuesToValues_elementwise:
  "userValuesToValues valueList = map resolveValue valueList
   \<and> length (userValuesToValues valueList) = length valueList
   \<and> userValuesToValues (xs @ ys) = userValuesToValues xs @ userValuesToValues ys"
  by (simp add: userValuesToValues_def userValuesToValues_loop_map)

theorem userValuesToValues_elementwise_witness:
  "userValuesToValues [''pitchSpace'', ''Duration'', ''My Axis''] =
     [''pitch'', ''quarterlength'', ''myaxis'']"
proof -
  have "map resolveValue [''pitchSpace'', ''Duration'', ''My Axis''] =
          [''pitch'', ''quarterlength'', ''myaxis'']"
    by (simp add: resolveValue_unfold normalized_def lower_char_def char_of_def bit_0)
  with userValuesToValues_elementwise [of "[''pitchSpace'', ''Duration'', ''My Axis'']"]
  show ?thesis by simp
qed

section \<open>The color normalizer\<close>

text \<open>
  Claim C1. \<open>getColor\<close> is claimed to return a canonical color or raise GraphException
  on every input. On the empty string it does neither: the test \<open>color[0] == '#'\<close>
  raises IndexError, whatever the helpers do.
\<close>

theorem getColor_empty_string:
  "getColor ext (PyStr []) = Inl (Raise IndexError ''string index out of range'')
   \<and> error_kind (getColor ext (PyStr [])) \<noteq> Some GraphException"
  by (simp add: getColor_def isNum_def getColor_string_def error_kind_def)

text \<open>
  Claim C3. \<open>getColor\<close> applied to a boolean raises GraphException with the message
  "invalid color specification: " followed by \<open>True\<close> or \<open>False\<close>; the boolean is not a
  numeric scalar and no color is returned.
\<close>

theorem getColor_bool:
  "getColor ext (PyBool b) =
     Inl (Raise GraphException
           (''invalid color specification: '' @ (if b then ''True'' else ''False'')))
   \<and> \<not> isNum (PyBool b)"
  by (simp add: getColor_def isNum_def isListLike_def)

theorem getColor_bool_witness:
  "getColor sample_externals (PyBool True) =
     Inl (Raise GraphException ''invalid color specification: True'')"
  using getColor_bool [of sample_externals True] by simp

subsection \<open>Hex strings\<close>

lemma hex_digit_lower:
  assumes "d \<in> set hex_digits"
  shows "lower_char d \<in> set lower_hex_digits"
proof -
  have "list_all (\<lambda>d. lower_char d \<in> set lower_hex_digits) hex_digits"
    by (simp add: hex_digits_def lower_hex_digits_def lower_char_def char_of_def bit_0)
  with assms show ?thesis
    by (simp only: list_all_iff)
qed

lemma lower_hex_digit_fixed:
  assumes "d \<in> set lower_hex_digits"
  shows "lower_char d = d"
proof -
  have "list_all (\<lambda>d. lower_char d = d) lower_hex_digits"
    by (simp add: lower_hex_digits_def lower_char_def char_of_def bit_0)
  with assms show ?thesis
    by (simp only: list_all_iff)
qed

lemma lower_hex_digit_is_hex: "d \<in> set lower_hex_digits \<Longrightarrow> d \<in> set hex_digits"
  by (auto simp add: lower_hex_digits_def hex_digits_def)

lemma lower_of_hex:
  "list_all (\<lambda>d. d \<in> set hex_digits) ds
   \<Longrightarrow> list_all (\<lambda>d. d \<in> set lower_hex_digits) (lower ds)"
  by (simp add: lower_def list_all_iff hex_digit_lower)

lemma lower_fixed:
  "list_all (\<lambda>d. d \<in> set lower_hex_digits) ds \<Longrightarrow> lower ds = ds"
  by (simp add: lower_def list_all_iff lower_hex_digit_fixed map_idI)

lemma canonical_color_cases:
  "canonical_color y \<longleftrightarrow>
     (\<exists>ds. y = CHR ''#'' # ds \<and> length ds = 6 \<and> list_all (\<lambda>d. d \<in> set lower_hex_digits) ds)"
  by (cases y) (simp_all add: canonical_color_def)

lemma valid_hex_cases:
  "valid_hex x \<longleftrightarrow>
     (\<exists>ds. x = CHR ''#'' # ds \<and> (length ds = 3 \<or> length ds = 6)
           \<and> list_all (\<lambda>d. d \<in> set hex_digits) ds)"
  by (cases x) (simp_all add: valid_hex_def)

lemma canonical_valid:
  assumes "canonical_color y"
  shows "valid_hex y"
proof -
  from assms obtain ds where y: "y = CHR ''#'' # ds" and len: "length ds = 6"
    and low: "list_all (\<lambda>d. d \<in> set lower_hex_digits) ds"
    unfolding canonical_color_cases by blast
  from low have "list_all (\<lambda>d. d \<in> set hex_digits) ds"
    by (simp add: list_all_iff lower_hex_digit_is_hex)
  with y len show ?thesis
    unfolding valid_hex_cases by blast
qed

lemma canonical_fixed_point:
  assumes "canonical_color y"
  shows "normalize_hex_spec y = Some y"
proof -
  from assms obtain ds where y: "y = CHR ''#'' # ds" and len: "length ds = 6"
    and low: "list_all (\<lambda>d. d \<in> set lower_hex_digits) ds"
    unfolding canonical_color_cases by blast
  from assms have "valid_hex y" by (rule canonical_valid)
  then show ?thesis
    by (simp add: normalize_hex_spec_def y len lower_fixed [OF low])
qed

lemma normalize_hex_spec_canonical:
  assumes "valid_hex x"
  shows "\<exists>y. normalize_hex_spec x = Some y \<and> canonical_color y"
proof -
  from assms obtain ds where x: "x = CHR ''#'' # ds"
    and len: "length ds = 3 \<or> length ds = 6"
    and hex: "list_all (\<lambda>d. d \<in> set hex_digits) ds"
    unfolding valid_hex_cases by blast
  let ?full = "if length ds = 3 then concat (map (\<lambda>d. [d, d]) ds) else ds"
  have full_hex: "list_all (\<lambda>d. d \<in> set hex_digits) ?full"
    using hex by (auto simp: list_all_iff)
  have full_len: "length ?full = 6"
    using len by (auto simp: length_concat comp_def sum_list_triv)
  have "normalize_hex_spec x = Some (CHR ''#'' # lower ?full)"
    using assms by (simp add: normalize_hex_spec_def x)
  moreover have "canonical_color (CHR ''#'' # lower ?full)"
    unfolding canonical_color_cases
    using lower_of_hex [OF full_hex] full_len by (simp add: lower_def)
  ultimately show ?thesis by blast
qed

lemma getColor_hex:
  "getColor ext (PyStr (CHR ''#'' # ds)) = normalize_hex ext (CHR ''#'' # ds)"
  by (simp add: getColor_def isNum_def getColor_string_def)

text \<open>
  Claim C8. \<open>getColor\<close> is idempotent on valid hex strings (a \<open>#\<close> followed by 3 or 6
  hexadecimal digits): given a \<open>normalize_hex\<close> that returns what the specification says
  for such strings, \<open>getColor\<close> returns a canonical color, and \<open>getColor\<close> of that
  color returns it again.
\<close>

theorem getColor_hex_idempotent:
  assumes helper: "\<And>s y. normalize_hex_spec s = Some y \<Longrightarrow> normalize_hex ext s = Inr y"
    and valid: "valid_hex x"
  shows "\<exists>y. getColor ext (PyStr x) = Inr y \<and> getColor ext (PyStr y) = Inr y
             \<and> canonical_color y"
proof -
  from normalize_hex_spec_canonical [OF valid]
  obtain y where first: "normalize_hex_spec x = Some y" and canon: "canonical_color y"
    by blast
  from valid obtain ds where x: "x = CHR ''#'' # ds"
    unfolding valid_hex_cases by blast
  from canon obtain es where y: "y = CHR ''#'' # es"
    unfolding canonical_color_cases by blast
  have "getColor ext (PyStr x) = Inr y"
    unfolding x getColor_hex using helper first x by simp
  moreover have "getColor ext (PyStr y) = Inr y"
    unfolding y getColor_hex using helper canonical_fixed_point [OF canon] y by simp
  ultimately show ?thesis using canon by blast
qed

theorem getColor_hex_idempotent_witness:
  "getColor sample_externals (PyStr ''#F50'') = Inr ''#ff5500''
   \<and> getColor sample_externals (PyStr ''#ff5500'') = Inr ''#ff5500''"
proof -
  have helper: "\<And>s y. normalize_hex_spec s = Some y \<Longrightarrow> normalize_hex sample_externals s = Inr y"
    by (simp add: sample_externals_def)
  have valid: "valid_hex ''#F50''"
    by (simp add: valid_hex_def hex_digits_def)
  have first: "getColor sample_externals (PyStr ''#F50'') = Inr ''#ff5500''"
    by (simp add: getColor_def isNum_def getColor_string_def sample_externals_def
        normalize_hex_spec_def valid_hex_def hex_digits_def lower_def lower_char_def
        char_of_def bit_0)
  with getColor_hex_idempotent [of sample_externals "''#F50''", OF helper valid]
  show ?thesis by auto
qed

subsection \<open>Sequences of numbers\<close>

lemma less_than_1_num_val: "less_than_1 x \<longleftrightarrow> num_val x < 1"
  by (cases x) simp_all

lemma percent_loop_num_val: "percent_loop xs \<longleftrightarrow> (\<exists>x\<in>set xs. num_val x < 1)"
  by (induction xs) (auto simp: less_than_1_num_val)

lemma percentage_string_code:
  "num_str ext (times_100 ext x) @ ''%'' = percentage_string ext x"
  by (cases x) (simp_all add: percentage_string_def)

lemma getColor_list:
  "getColor ext (PyList xs) = getColor_sequence ext xs"
  by (simp add: getColor_def isNum_def isListLike_def)

lemma getColor_num:
  "getColor ext (PyNum n) = getColor_sequence ext [n, n, n]"
  by (simp add: getColor_def isNum_def isListLike_def)

lemma expand_single:
  "length xs = 1 \<Longrightarrow> [xs ! 0, xs ! 0, xs ! 0] = replicate 3 (hd xs)"
  by (cases xs) (simp_all add: numeral_3_eq_3)

lemma getColor_sequence_percent:
  assumes "\<exists>x\<in>set xs. num_val x < 1"
  shows "getColor_sequence ext xs =
           rgb_percent_to_hex ext
             (map (percentage_string ext) (if length xs = 1 then replicate 3 (hd xs) else xs))"
proof -
  from assms have percent: "percent_loop xs"
    by (simp add: percent_loop_num_val)
  show ?thesis
  proof (cases "length xs = 1")
    case True
    then show ?thesis
      by (simp add: getColor_sequence_def percent percentage_string_code expand_single
          del: replicate.simps)
  next
    case False
    then show ?thesis
      by (simp add: getColor_sequence_def percent percentage_string_code)
  qed
qed









subsection \<open>Percent mode\<close>

text \<open>
  The float literals \<open>0.5\<close> and \<open>0.8\<close> are the doubles nearest to 1/2 and 4/5; their
  products with 100 are the doubles 50 and 80.
\<close>

lemma double_literals:
  "double_round (1 / 2) = 1 / 2"
  "double_round (4 / 5) = 3602879701896397 / 4503599627370496"
  "double_round (1 / 2) < 1"
  "double_round (4 / 5) < 1"
  by code_simp+

lemma double_products:
  "double_round (double_round (1 / 2) * 100) = 50"
  "double_round (double_round (4 / 5) * 100) = 80"
  by code_simp+

lemma percent_hex_examples:
  "rgb_percent_to_hex_spec [''50.0%'', ''50.0%'', ''50.0%''] = Some ''#808080''"
  "rgb_percent_to_hex_spec [''80.0%'', ''80.0%'', ''80.0%''] = Some ''#cccccc''"
  by code_simp+

lemma percent_to_channel_nearest:
  assumes "0 \<le> p" "p \<le> 100"
  shows "0 \<le> percent_to_channel p \<and> percent_to_channel p \<le> 255
         \<and> of_int (percent_to_channel p) - 1 / 2 \<le> p * 255 / 100
         \<and> p * 255 / 100 < of_int (percent_to_channel p) + 1 / 2"
proof -
  define v where "v = p * 255 / 100"
  define c where "c = \<lfloor>v + 1 / 2\<rfloor>"
  have channel: "percent_to_channel p = c"
    by (simp add: percent_to_channel_def c_def v_def)
  have low: "of_int c \<le> v + 1 / 2" and high: "v + 1 / 2 < of_int c + 1"
    unfolding c_def by linarith+
  from assms have "0 \<le> v" and "v \<le> 255"
    by (simp_all add: v_def)
  then have "0 \<le> v + 1 / 2" and "v + 1 / 2 < 256"
    by simp_all
  then have nonneg: "0 \<le> c" and below: "c < 256"
    unfolding c_def by (simp_all add: floor_less_iff)
  from low high nonneg below show ?thesis
    unfolding channel v_def [symmetric] by (intro conjI) linarith+
qed

lemma rgb_percent_to_hex_spec_channels:
  assumes "parse_percent r = Some pr" "0 \<le> pr" "pr \<le> 100"
    and "parse_percent g = Some pg" "0 \<le> pg" "pg \<le> 100"
    and "parse_percent b = Some pb" "0 \<le> pb" "pb \<le> 100"
  shows "rgb_percent_to_hex_spec [r, g, b] =
           Some (CHR ''#'' # hex2 (percent_to_channel pr) @ hex2 (percent_to_channel pg)
                   @ hex2 (percent_to_channel pb))"
  using assms by (simp add: channel_of_string_def)

lemma getColor_percent_scalar:
  assumes "num_val n < 1"
  shows "getColor ext (PyNum n) = rgb_percent_to_hex ext (replicate 3 (percentage_string ext n))"
    and "getColor ext (PyList [n]) = rgb_percent_to_hex ext (replicate 3 (percentage_string ext n))"
    and "getColor ext (PyList [n, n, n])
           = rgb_percent_to_hex ext (replicate 3 (percentage_string ext n))"
proof -
  from assms have three: "\<exists>x\<in>set [n, n, n]. num_val x < 1" and one: "\<exists>x\<in>set [n]. num_val x < 1"
    by simp_all
  show "getColor ext (PyNum n) = rgb_percent_to_hex ext (replicate 3 (percentage_string ext n))"
    using getColor_sequence_percent [OF three, of ext]
    by (simp add: getColor_num numeral_3_eq_3)
  show "getColor ext (PyList [n]) = rgb_percent_to_hex ext (replicate 3 (percentage_string ext n))"
    using getColor_sequence_percent [OF one, of ext]
    by (simp add: getColor_list numeral_3_eq_3)
  show "getColor ext (PyList [n, n, n])
           = rgb_percent_to_hex ext (replicate 3 (percentage_string ext n))"
    using getColor_sequence_percent [OF three, of ext]
    by (simp add: getColor_list numeral_3_eq_3)
qed

text \<open>
  Claim C5. In percent mode \<open>getColor\<close> hands each channel value \<open>v\<close> to the percent
  conversion as the string \<open>str(v * 100) + '%'\<close>; a numeric scalar and a one-element
  sequence go as three identical channels. The conversion of the specification maps a
  percentage between 0 and 100 to the nearest 8-bit value, a half rounding up (50 percent
  is 127.5 and gives 128). With a conversion that returns what the specification says,
  the IEEE float product and Python's printing of the floats 50 and 80,
  \<open>getColor([0.5, 0.5, 0.5])\<close> is \<open>#808080\<close>, \<open>getColor(0.8)\<close> is \<open>#cccccc\<close> and
  \<open>getColor([0.8])\<close> is \<open>#cccccc\<close>.
\<close>

theorem getColor_percent_conversion:
  "(num_val n < 1 \<longrightarrow>
      getColor ext (PyNum n) = rgb_percent_to_hex ext (replicate 3 (percentage_string ext n))
      \<and> getColor ext (PyList [n])
           = rgb_percent_to_hex ext (replicate 3 (percentage_string ext n))
      \<and> getColor ext (PyList [n, n, n])
           = rgb_percent_to_hex ext (replicate 3 (percentage_string ext n)))
   \<and> ((\<exists>x\<in>set xs. num_val x < 1) \<and> length xs \<noteq> 1 \<longrightarrow>
        getColor ext (PyList xs) = rgb_percent_to_hex ext (map (percentage_string ext) xs))
   \<and> percentage_string ext (PyInt 0) = ''0%''
   \<and> percentage_string ext (PyInt 1) = ''100%''
   \<and> percentage_string ext (PyFloat x) = float_str ext (float_mul ext x 100) @ ''%''
   \<and> (parse_percent r = Some pr \<and> 0 \<le> pr \<and> pr \<le> 100
        \<and> parse_percent g = Some pg \<and> 0 \<le> pg \<and> pg \<le> 100
        \<and> parse_percent b = Some pb \<and> 0 \<le> pb \<and> pb \<le> 100 \<longrightarrow>
        rgb_percent_to_hex_spec [r, g, b] =
          Some (CHR ''#'' # hex2 (percent_to_channel pr) @ hex2 (percent_to_channel pg)
                  @ hex2 (percent_to_channel pb)))
   \<and> (0 \<le> p \<and> p \<le> 100 \<longrightarrow>
        0 \<le> percent_to_channel p \<and> percent_to_channel p \<le> 255
        \<and> of_int (percent_to_channel p) - 1 / 2 \<le> p * 255 / 100
        \<and> p * 255 / 100 < of_int (percent_to_channel p) + 1 / 2)
   \<and> percent_to_channel 50 = 128
   \<and> parse_percent ''50.0%'' = Some 50
   \<and> ((\<forall>strs hex. rgb_percent_to_hex_spec strs = Some hex
                    \<longrightarrow> rgb_percent_to_hex ext strs = Inr hex)
        \<and> (\<forall>a b. float_mul ext a b = double_round (a * b))
        \<and> float_str ext 50 = ''50.0'' \<and> float_str ext 80 = ''80.0'' \<longrightarrow>
        getColor ext (PyList [PyFloat (double_round (1 / 2)), PyFloat (double_round (1 / 2)),
                              PyFloat (double_round (1 / 2))]) = Inr ''#808080''
        \<and> getColor ext (PyNum (PyFloat (double_round (4 / 5)))) = Inr ''#cccccc''
        \<and> getColor ext (PyList [PyFloat (double_round (4 / 5))]) = Inr ''#cccccc'')"
proof -
  have scalar: "num_val n < 1 \<longrightarrow>
      getColor ext (PyNum n) = rgb_percent_to_hex ext (replicate 3 (percentage_string ext n))
      \<and> getColor ext (PyList [n])
           = rgb_percent_to_hex ext (replicate 3 (percentage_string ext n))
      \<and> getColor ext (PyList [n, n, n])
           = rgb_percent_to_hex ext (replicate 3 (percentage_string ext n))"
    using getColor_percent_scalar [of n ext] by blast
  have sequence: "(\<exists>x\<in>set xs. num_val x < 1) \<and> length xs \<noteq> 1 \<longrightarrow>
        getColor ext (PyList xs) = rgb_percent_to_hex ext (map (percentage_string ext) xs)"
  proof
    assume a: "(\<exists>x\<in>set xs. num_val x < 1) \<and> length xs \<noteq> 1"
    then have "getColor_sequence ext xs =
        rgb_percent_to_hex ext
          (map (percentage_string ext) (if length xs = 1 then replicate 3 (hd xs) else xs))"
      by (intro getColor_sequence_percent) simp
    with a show "getColor ext (PyList xs)
                   = rgb_percent_to_hex ext (map (percentage_string ext) xs)"
      by (simp add: getColor_list)
  qed
  have strings: "percentage_string ext (PyInt 0) = ''0%''
      \<and> percentage_string ext (PyInt 1) = ''100%''
      \<and> percentage_string ext (PyFloat x) = float_str ext (float_mul ext x 100) @ ''%''"
    by (simp add: percentage_string_def str_int_def)
  have channels: "parse_percent r = Some pr \<and> 0 \<le> pr \<and> pr \<le> 100
        \<and> parse_percent g = Some pg \<and> 0 \<le> pg \<and> pg \<le> 100
        \<and> parse_percent b = Some pb \<and> 0 \<le> pb \<and> pb \<le> 100 \<longrightarrow>
        rgb_percent_to_hex_spec [r, g, b] =
          Some (CHR ''#'' # hex2 (percent_to_channel pr) @ hex2 (percent_to_channel pg)
                  @ hex2 (percent_to_channel pb))"
    using rgb_percent_to_hex_spec_channels [of r pr g pg b pb] by blast
  have nearest: "0 \<le> p \<and> p \<le> 100 \<longrightarrow>
        0 \<le> percent_to_channel p \<and> percent_to_channel p \<le> 255
        \<and> of_int (percent_to_channel p) - 1 / 2 \<le> p * 255 / 100
        \<and> p * 255 / 100 < of_int (percent_to_channel p) + 1 / 2"
    using percent_to_channel_nearest [of p] by blast
  have half: "percent_to_channel 50 = 128" "parse_percent ''50.0%'' = Some 50"
    by code_simp+
  have examples: "getColor ext (PyList [PyFloat (double_round (1 / 2)),
                      PyFloat (double_round (1 / 2)), PyFloat (double_round (1 / 2))])
                    = Inr ''#808080''
        \<and> getColor ext (PyNum (PyFloat (double_round (4 / 5)))) = Inr ''#cccccc''
        \<and> getColor ext (PyList [PyFloat (double_round (4 / 5))]) = Inr ''#cccccc''"
    if helper: "\<forall>strs hex. rgb_percent_to_hex_spec strs = Some hex
                    \<longrightarrow> rgb_percent_to_hex ext strs = Inr hex"
      and product: "\<forall>a b. float_mul ext a b = double_round (a * b)"
      and printing: "float_str ext 50 = ''50.0''" "float_str ext 80 = ''80.0''"
  proof -
    have s50: "percentage_string ext (PyFloat (double_round (1 / 2))) = ''50.0%''"
      by (simp only: percentage_string_def pynum.case product double_products printing)
        simp
    have s80: "percentage_string ext (PyFloat (double_round (4 / 5))) = ''80.0%''"
      by (simp only: percentage_string_def pynum.case product double_products printing)
        simp
    have below: "num_val (PyFloat (double_round (1 / 2))) < 1"
      "num_val (PyFloat (double_round (4 / 5))) < 1"
      by (simp_all only: num_val.simps double_literals)
    from helper percent_hex_examples
    have hex50: "rgb_percent_to_hex ext [''50.0%'', ''50.0%'', ''50.0%''] = Inr ''#808080''"
      and hex80: "rgb_percent_to_hex ext [''80.0%'', ''80.0%'', ''80.0%''] = Inr ''#cccccc''"
      by blast+
    have r3: "\<And>s::string. replicate 3 s = [s, s, s]"
      by (simp add: numeral_3_eq_3)
    from getColor_percent_scalar(3) [OF below(1), of ext] hex50
    have "getColor ext (PyList [PyFloat (double_round (1 / 2)),
                      PyFloat (double_round (1 / 2)), PyFloat (double_round (1 / 2))])
                    = Inr ''#808080''"
      by (simp only: s50 r3)
    moreover from getColor_percent_scalar(1) [OF below(2), of ext] hex80
    have "getColor ext (PyNum (PyFloat (double_round (4 / 5)))) = Inr ''#cccccc''"
      by (simp only: s80 r3)
    moreover from getColor_percent_scalar(2) [OF below(2), of ext] hex80
    have "getColor ext (PyList [PyFloat (double_round (4 / 5))]) = Inr ''#cccccc''"
      by (simp only: s80 r3)
    ultimately show ?thesis by blast
  qed
  from scalar sequence strings channels nearest half examples show ?thesis
    by blast
qed

theorem getColor_percent_conversion_witness:
  "getColor sample_externals
     (PyList [PyFloat (double_round (1 / 2)), PyFloat (double_round (1 / 2)),
              PyFloat (double_round (1 / 2))]) = Inr ''#808080''
   \<and> getColor sample_externals (PyNum (PyFloat (double_round (4 / 5)))) = Inr ''#cccccc''
   \<and> getColor sample_externals (PyList [PyFloat (double_round (4 / 5))]) = Inr ''#cccccc''"
proof -
  have helper: "\<forall>strs hex. rgb_percent_to_hex_spec strs = Some hex
                  \<longrightarrow> rgb_percent_to_hex sample_externals strs = Inr hex"
    by (simp add: sample_externals_def)
  have product: "\<forall>a b. float_mul sample_externals a b = double_round (a * b)"
    by (simp add: sample_externals_def)
  have printing: "float_str sample_externals 50 = ''50.0''"
    "float_str sample_externals 80 = ''80.0''"
    by (simp_all add: sample_externals_def str_integral_float_def str_int_def)
  from getColor_percent_conversion
         [of "PyInt 0" sample_externals "[]" 0 "[]" 0 "[]" 0 "[]" 0 0]
    helper product printing
  show ?thesis by blast
qed

section \<open>The accidental glyph converter\<close>

lemma contains_single: "contains [c] s \<longleftrightarrow> c \<in> set s"
  by (induction s) auto

lemma accidentalLabelToUnicode_loop_spec:
  "accidentalLabelToUnicode_loop table label = toDisplayLabel table label"
proof (induction table)
  case Nil
  then show ?case by (simp add: toDisplayLabel_def)
next
  case (Cons entry table)
  obtain modifier glyph where entry: "entry = (modifier, glyph)"
    by (cases entry)
  show ?case
  proof (cases "modifier = ''-'' \<or> modifier = ''#''")
    case True
    then show ?thesis
      using Cons.IH
      by (auto simp: entry toDisplayLabel_def contains_single replace_single substitute_def)
  next
    case False
    then show ?thesis
      using Cons.IH by (simp add: entry toDisplayLabel_def)
  qed
qed

lemma substitute_keeps:
  "c \<in> set label \<Longrightarrow> c \<noteq> modifier \<Longrightarrow> c \<in> set (substitute modifier glyph label)"
  by (induction label) (auto simp: substitute_def)

lemma toDisplayLabel_both:
  assumes "CHR ''-'' \<in> set label" and "CHR ''#'' \<in> set label"
    and "map_of table ''-'' = Some flat" and "map_of table ''#'' = Some sharp"
  shows "toDisplayLabel table label = substitute CHR ''-'' flat label
         \<or> toDisplayLabel table label = substitute CHR ''#'' sharp label"
  using assms(3,4)
proof (induction table)
  case Nil
  then show ?case by simp
next
  case (Cons entry table)
  obtain modifier glyph where entry: "entry = (modifier, glyph)"
    by (cases entry)
  show ?case
  proof (cases "modifier = ''-'' \<or> modifier = ''#''")
    case True
    then show ?thesis
      using Cons.prems assms(1,2) by (auto simp: entry toDisplayLabel_def)
  next
    case False
    with Cons.prems have "map_of table ''-'' = Some flat" "map_of table ''#'' = Some sharp"
      by (auto simp: entry split: if_splits)
    from Cons.IH [OF this] False show ?thesis
      by (simp add: entry toDisplayLabel_def)
  qed
qed

text \<open>
  Claim C4. On a string, \<open>accidentalLabelToUnicode\<close> takes the first entry of the
  modifier table whose modifier is \<open>-\<close> or \<open>#\<close> and occurs in the label, replaces every
  occurrence of that one modifier by its glyph and stops; with no such entry the label is
  unchanged. A label that holds both \<open>-\<close> and \<open>#\<close> has one of them replaced and still
  holds the other. A value that is not a string is returned as it is.
\<close>

theorem accidentalLabelToUnicode_first_match:
  "accidentalLabelToUnicode table (PyStr label) = PyStr (toDisplayLabel table label)
   \<and> (\<not> is_PyStr v \<longrightarrow> accidentalLabelToUnicode table v = v)
   \<and> (CHR ''-'' \<in> set label \<and> CHR ''#'' \<in> set label
        \<and> map_of table ''-'' = Some flat \<and> map_of table ''#'' = Some sharp
       \<longrightarrow> (accidentalLabelToUnicode table (PyStr label)
               = PyStr (substitute CHR ''-'' flat label)
             \<and> CHR ''#'' \<in> set (substitute CHR ''-'' flat label))
           \<or> (accidentalLabelToUnicode table (PyStr label)
               = PyStr (substitute CHR ''#'' sharp label)
             \<and> CHR ''-'' \<in> set (substitute CHR ''#'' sharp label)))"
proof (intro conjI impI)
  show first: "accidentalLabelToUnicode table (PyStr label) = PyStr (toDisplayLabel table label)"
    by (simp add: accidentalLabelToUnicode_def accidentalLabelToUnicode_loop_spec)
  show "accidentalLabelToUnicode table v = v" if "\<not> is_PyStr v"
    using that by (simp add: accidentalLabelToUnicode_def)
  show "(accidentalLabelToUnicode table (PyStr label)
               = PyStr (substitute CHR ''-'' flat label)
             \<and> CHR ''#'' \<in> set (substitute CHR ''-'' flat label))
           \<or> (accidentalLabelToUnicode table (PyStr label)
               = PyStr (substitute CHR ''#'' sharp label)
             \<and> CHR ''-'' \<in> set (substitute CHR ''#'' sharp label))"
    if both: "CHR ''-'' \<in> set label \<and> CHR ''#'' \<in> set label
        \<and> map_of table ''-'' = Some flat \<and> map_of table ''#'' = Some sharp"
  proof -
    from both have "toDisplayLabel table label = substitute CHR ''-'' flat label
         \<or> toDisplayLabel table label = substitute CHR ''#'' sharp label"
      by (intro toDisplayLabel_both) simp_all
    moreover from both have "CHR ''#'' \<in> set (substitute CHR ''-'' flat label)"
      by (intro substitute_keeps) simp_all
    moreover from both have "CHR ''-'' \<in> set (substitute CHR ''#'' sharp label)"
      by (intro substitute_keeps) simp_all
    ultimately show ?thesis
      using first by auto
  qed
qed

theorem accidentalLabelToUnicode_first_match_witness:
  "accidentalLabelToUnicode sample_unicodeFromModifier (PyStr ''B--4'')
     = PyStr (''B'' @ flat_glyph @ flat_glyph @ ''4'')
   \<and> accidentalLabelToUnicode sample_unicodeFromModifier (PyStr ''C#-'')
     = PyStr (''C'' @ sharp_glyph @ ''-'')
   \<and> accidentalLabelToUnicode sample_unicodeFromModifier (PyNum (PyInt 4)) = PyNum (PyInt 4)"
proof -
  have flat: "toDisplayLabel sample_unicodeFromModifier ''B--4''
                = ''B'' @ flat_glyph @ flat_glyph @ ''4''"
    by (simp add: toDisplayLabel_def sample_unicodeFromModifier_def substitute_def)
  have sharp: "toDisplayLabel sample_unicodeFromModifier ''C#-'' = ''C'' @ sharp_glyph @ ''-''"
    by (simp add: toDisplayLabel_def sample_unicodeFromModifier_def substitute_def)
  from accidentalLabelToUnicode_first_match
         [of sample_unicodeFromModifier "''B--4''" "PyNum (PyInt 4)"]
    accidentalLabelToUnicode_first_match [of sample_unicodeFromModifier "''C#-''"]
    flat sharp
  show ?thesis by simp
qed

section \<open>Error kinds\<close>

lemma getExtendedModules_missing:
  "''matplotlib'' \<in> set (missingImport st) \<Longrightarrow>
   getExtendedModules st =
     ([], Inl (Raise GraphException ''could not find matplotlib, graphing is not allowed''))"
  by (simp add: getExtendedModules_def)

lemma css3_lookup_failure:
  "css3_lookup ext name = Inl e \<Longrightarrow>
   exn_class_of e = GraphException \<and> take 14 (message_of e) = ''invalid color ''"
  by (auto simp: css3_lookup_def split: option.splits)

lemma getColor_string_failure:
  assumes "s \<noteq> []" and "hd s \<noteq> CHR ''#''" and "getColor_string ext s = Inl e"
  shows "exn_class_of e = GraphException \<and> take 14 (message_of e) = ''invalid color ''"
proof -
  from assms(1) obtain c0 cs where s: "s = c0 # cs"
    by (cases s) auto
  with assms(2) have c0: "c0 \<noteq> CHR ''#''" by simp
  let ?color = "replace '' '' [] (lower s)"
  show ?thesis
  proof (cases "length ?color = 1")
    case True
    show ?thesis
    proof (cases "colorMap ?color")
      case None
      with True assms(3) c0 have "e = Raise GraphException (''invalid color abbreviation: '' @ ?color)"
        by (simp add: getColor_string_def s Let_def)
      then show ?thesis by simp
    next
      case (Some name)
      with True assms(3) c0 have "css3_lookup ext name = Inl e"
        by (simp add: getColor_string_def s Let_def)
      then show ?thesis by (rule css3_lookup_failure)
    qed
  next
    case False
    with assms(3) c0 have "css3_lookup ext ?color = Inl e"
      by (simp add: getColor_string_def s Let_def)
    then show ?thesis by (rule css3_lookup_failure)
  qed
qed

text \<open>
  Claim C9, as amended. The two failures have one kind: when matplotlib is missing,
  \<open>getExtendedModules\<close> raises GraphException, and a failure of \<open>getColor\<close> on None, on
  a boolean or on a non-empty string that does not start with \<open>#\<close> (a bad abbreviation,
  name or specification) is a GraphException too. They differ in the message only: the
  loader's is "could not find matplotlib, graphing is not allowed", the color messages
  start with "invalid color ".
\<close>

theorem color_and_loader_errors_share_kind:
  assumes missing: "''matplotlib'' \<in> set (missingImport st)"
    and shape: "c = PyNone \<or> is_PyBool c
                \<or> (is_PyStr c \<and> str_of c \<noteq> [] \<and> hd (str_of c) \<noteq> CHR ''#'')"
    and failed: "getColor ext c = Inl e"
  shows "error_kind (snd (getExtendedModules st)) = Some GraphException
         \<and> error_kind (getColor ext c) = Some GraphException
         \<and> snd (getExtendedModules st) =
             Inl (Raise GraphException ''could not find matplotlib, graphing is not allowed'')
         \<and> take 14 (message_of e) = ''invalid color ''
         \<and> message_of e \<noteq> ''could not find matplotlib, graphing is not allowed''"
proof -
  have loader: "snd (getExtendedModules st) =
      Inl (Raise GraphException ''could not find matplotlib, graphing is not allowed'')"
    using missing by (simp add: getExtendedModules_missing)
  have color: "exn_class_of e = GraphException \<and> take 14 (message_of e) = ''invalid color ''"
  proof (cases c)
    case PyNone
    with failed show ?thesis
      by (auto simp: getColor_def isNum_def isListLike_def)
  next
    case (PyBool b)
    with failed show ?thesis
      by (auto simp: getColor_def isNum_def isListLike_def)
  next
    case (PyNum n)
    with shape show ?thesis by simp
  next
    case (PyStr s)
    with shape have "s \<noteq> []" "hd s \<noteq> CHR ''#''" by simp_all
    moreover from failed PyStr have "getColor_string ext s = Inl e"
      by (simp add: getColor_def isNum_def)
    ultimately show ?thesis by (rule getColor_string_failure)
  next
    case (PyList xs)
    with shape show ?thesis by simp
  qed
  from color have differ: "message_of e \<noteq> ''could not find matplotlib, graphing is not allowed''"
    by auto
  from loader color differ failed show ?thesis
    by (simp add: error_kind_def)
qed

theorem color_and_loader_errors_share_kind_witness:
  "error_kind (snd (getExtendedModules matplotlib_missing)) = Some GraphException
   \<and> error_kind (getColor sample_externals (PyStr ''chalkywhitebutsortofgreenish''))
       = Some GraphException
   \<and> getColor sample_externals (PyStr ''chalkywhitebutsortofgreenish'')
       = Inl (Raise GraphException ''invalid color name: chalkywhitebutsortofgreenish'')"
proof -
  have missing: "''matplotlib'' \<in> set (missingImport matplotlib_missing)"
    by (simp add: matplotlib_missing_def)
  have failed: "getColor sample_externals (PyStr ''chalkywhitebutsortofgreenish'')
       = Inl (Raise GraphException ''invalid color name: chalkywhitebutsortofgreenish'')"
    by (simp add: getColor_def isNum_def getColor_string_def css3_lookup_def
        sample_externals_def lower_def lower_char_def)
  have shape: "PyStr ''chalkywhitebutsortofgreenish'' = PyNone
      \<or> is_PyBool (PyStr ''chalkywhitebutsortofgreenish'')
      \<or> (is_PyStr (PyStr ''chalkywhitebutsortofgreenish'')
          \<and> str_of (PyStr ''chalkywhitebutsortofgreenish'') \<noteq> []
          \<and> hd (str_of (PyStr ''chalkywhitebutsortofgreenish'')) \<noteq> CHR ''#'')"
    by simp
  from color_and_loader_errors_share_kind [OF missing shape failed] failed
  show ?thesis by (simp add: error_kind_def)
qed

text \<open>
  Claim C9 as stated (the two failures are distinct error kinds) fails: without matplotlib
  the loader raises the same kind as \<open>getColor('l')\<close>.
\<close>

theorem error_kinds_distinct_counterexample:
  "error_kind (snd (getExtendedModules matplotlib_missing)) = Some GraphException
   \<and> error_kind (getColor sample_externals (PyStr ''l'')) = Some GraphException
   \<and> error_kind (snd (getExtendedModules matplotlib_missing))
       = error_kind (getColor sample_externals (PyStr ''l''))"
  by (simp add: error_kind_def getExtendedModules_def matplotlib_missing_def getColor_def
      isNum_def getColor_string_def colorMap_def lower_def lower_char_def)

end
